theory Spec2Isabelle
  imports Main
begin

section \<open>JavaScript primitives used by the migration runner\<close>

text \<open>
  The runner (\<^verbatim>\<open>runMigrations\<close>, \<^verbatim>\<open>waitForAttributes\<close>) and the \<^verbatim>\<open>migrations status\<close>
  command rely on a few built-ins of the language: \<^verbatim>\<open>String.prototype.startsWith\<close>,
  \<^verbatim>\<open>substring\<close>, \<^verbatim>\<open>parseInt\<close>, \<^verbatim>\<open>Array.prototype.sort\<close> with a comparison function,
  \<^verbatim>\<open>path.join\<close> and \<^verbatim>\<open>String.prototype.match\<close> with one fixed regular expression.
  Strings are lists of characters.
\<close>

definition startsWith :: "string \<Rightarrow> string \<Rightarrow> bool" where
  "startsWith s p = (take (length p) s = p)"

definition substring :: "string \<Rightarrow> nat \<Rightarrow> string" where
  "substring s n = drop n s"

text \<open>
  \<^verbatim>\<open>path.join(a, b)\<close> for a directory \<open>a\<close> and an entry name \<open>b\<close> that holds no
  separator. Paths are kept relative to the migrations directory
  \<^verbatim>\<open>appwrite/migration\<close>, so the path of a version is its directory name.
\<close>

definition pathJoin :: "string \<Rightarrow> string \<Rightarrow> string" where
  "pathJoin a b = a @ ''/'' @ b"

subsection \<open>parseInt\<close>

text \<open>
  \<^verbatim>\<open>parseInt(string)\<close> with no radix: leading white space is dropped, one sign is read,
  a prefix \<^verbatim>\<open>0x\<close> or \<^verbatim>\<open>0X\<close> selects radix 16 (radix 10 otherwise), and the longest prefix
  of digits of that radix is the number. With no digit the result is \<^verbatim>\<open>NaN\<close>, which is
  \<open>None\<close> here. The model keeps the mathematical integer; a JavaScript Number is that
  integer exactly as long as its absolute value is at most \<^verbatim>\<open>Number.MAX_SAFE_INTEGER\<close>
  (\<open>2 ^ 53 - 1\<close>), see \<open>safeInteger\<close>. White space is the ASCII white space.
\<close>

definition isWhiteSpace :: "char \<Rightarrow> bool" where
  "isWhiteSpace c = (c \<in> set [CHR '' '', CHR 0x09, CHR 0x0A, CHR 0x0B, CHR 0x0C, CHR 0x0D])"

definition digitValue :: "char \<Rightarrow> nat option" where
  "digitValue c =
     (let n = (of_char c :: nat) in
      if 48 \<le> n \<and> n \<le> 57 then Some (n - 48)
      else if 97 \<le> n \<and> n \<le> 122 then Some (n - 87)
      else if 65 \<le> n \<and> n \<le> 90 then Some (n - 55)
      else None)"

definition isDigitOf :: "nat \<Rightarrow> char \<Rightarrow> bool" where
  "isDigitOf R c = (case digitValue c of Some d \<Rightarrow> d < R | None \<Rightarrow> False)"

definition digitsValue :: "nat \<Rightarrow> string \<Rightarrow> nat" where
  "digitsValue R Z =
     foldl (\<lambda>acc c. acc * R + (case digitValue c of Some d \<Rightarrow> d | None \<Rightarrow> 0)) 0 Z"

definition parseInt :: "string \<Rightarrow> int option" where
  "parseInt inputString =
     (let S = dropWhile isWhiteSpace inputString;
          negative = (take 1 S = ''-'');
          S1 = (if take 1 S = ''+'' \<or> take 1 S = ''-'' then drop 1 S else S);
          hex = (take 2 S1 = ''0x'' \<or> take 2 S1 = ''0X'');
          R = (if hex then 16 else 10);
          S2 = (if hex then drop 2 S1 else S1);
          Z = takeWhile (isDigitOf R) S2
      in if Z = [] then None
         else Some ((if negative then - 1 else 1) * int (digitsValue R Z)))"

definition safeInteger :: "int \<Rightarrow> bool" where
  "safeInteger n = (\<bar>n\<bar> < 2 ^ 53)"

subsection \<open>Array.prototype.sort with a comparison function\<close>

text \<open>
  The sort is stable, and a comparison that yields \<^verbatim>\<open>NaN\<close> counts as \<open>+0\<close>
  (\<^verbatim>\<open>SortCompare\<close>). For a consistent comparison function every stable sort returns the
  same array, which is the one the insertion sort below computes. When the comparison
  function is not consistent (here: when some name has no number, so that a difference is
  \<^verbatim>\<open>NaN\<close>) the language leaves the order to the implementation; the theorems about the
  order therefore assume that every name has a number.
\<close>

definition sortCompare :: "('a \<Rightarrow> 'a \<Rightarrow> int option) \<Rightarrow> 'a \<Rightarrow> 'a \<Rightarrow> int" where
  "sortCompare comparefn x y = (case comparefn x y of None \<Rightarrow> 0 | Some v \<Rightarrow> v)"

fun insertSorted :: "('a \<Rightarrow> 'a \<Rightarrow> int option) \<Rightarrow> 'a \<Rightarrow> 'a list \<Rightarrow> 'a list" where
  "insertSorted comparefn x [] = [x]"
| "insertSorted comparefn x (y # ys) =
     (if sortCompare comparefn x y \<le> 0 then x # y # ys
      else y # insertSorted comparefn x ys)"

fun arraySort :: "('a \<Rightarrow> 'a \<Rightarrow> int option) \<Rightarrow> 'a list \<Rightarrow> 'a list" where
  "arraySort comparefn [] = []"
| "arraySort comparefn (x # xs) = insertSorted comparefn x (arraySort comparefn xs)"

subsection \<open>The version directories, in the order of the run\<close>

text \<open>
  \<^verbatim>\<open>(a, b) => parseInt(a.substring(1)) - parseInt(b.substring(1))\<close>, the comparison
  function of \<^verbatim>\<open>runMigrations\<close> and of \<^verbatim>\<open>migrations status\<close>. A difference with a
  \<^verbatim>\<open>NaN\<close> operand is \<^verbatim>\<open>NaN\<close>.
\<close>

definition ordinal :: "string \<Rightarrow> int option" where
  "ordinal dir = parseInt (substring dir 1)"

definition compareVersions :: "string \<Rightarrow> string \<Rightarrow> int option" where
  "compareVersions a b =
     (case ordinal a of
        None \<Rightarrow> None
      | Some numA \<Rightarrow> (case ordinal b of None \<Rightarrow> None | Some numB \<Rightarrow> Some (numA - numB)))"



definition numbered :: "string \<Rightarrow> bool" where
  "numbered dir = (case ordinal dir of Some n \<Rightarrow> safeInteger n | None \<Rightarrow> False)"

section \<open>The data of a run\<close>

text \<open>
  A migration is the default export of a version's \<^verbatim>\<open>index.ts\<close> or \<^verbatim>\<open>index.js\<close>
  (interface \<^verbatim>\<open>Migration\<close>). The runner reads \<^verbatim>\<open>id\<close> and \<^verbatim>\<open>up\<close> only, and tests both
  at run time, so either can be absent. Of \<^verbatim>\<open>up\<close> the runner sees whether the awaited
  call returns or throws. What a script does to the data of the project is not part of
  the model; a script is taken not to write to the migrations collection.
\<close>

datatype up_result = UpReturns | UpThrows

record migration =
  migration_id :: "string option"
  migration_up :: "up_result option"

text \<open>\<^verbatim>\<open>jiti.import(file)\<close> throws, or gives a module with or without a default export.\<close>

datatype import_result = ImportThrows | Module "migration option"

text \<open>
  The snapshot file (\<^verbatim>\<open>appwrite.config.json\<close> format) as \<^verbatim>\<open>waitForAttributes\<close> reads it:
  the array \<^verbatim>\<open>tables\<close>, of each table \<^verbatim>\<open>$id\<close>, \<^verbatim>\<open>name\<close> and \<^verbatim>\<open>databaseId\<close>. The map
  built from \<^verbatim>\<open>tablesDB\<close> is never read and is left out. A \<^verbatim>\<open>databaseId\<close> that is absent
  or empty is falsy. The file is taken to have this shape when it parses: \<^verbatim>\<open>tables\<close> and
  \<^verbatim>\<open>tablesDB\<close>, when present, are arrays of objects.
\<close>

record table =
  table_id :: string
  table_name :: string
  table_databaseId :: "string option"

text \<open>
  \<^verbatim>\<open>databases.listAttributes(databaseId, collectionId)\<close> answers with the status of each
  attribute, or throws an error whose \<^verbatim>\<open>code\<close> is a number or is absent. An answer
  without \<^verbatim>\<open>attributes\<close> makes the \<^verbatim>\<open>filter\<close> call throw inside the same \<^verbatim>\<open>try\<close>, an
  error without a code.
\<close>

datatype attributes_reply = Attributes "string list" | ListThrows "int option"

text \<open>
  The remote project: the documents of the migrations collection (the AppliedRecords,
  each a migration id with its version label), the schema as the sequence of snapshots
  pushed to it, and the number of attribute queries it has answered, which is the time
  that its answers depend on.
\<close>

record remote =
  applied :: "(string \<times> string) list"
  schema :: "string list"
  queries :: nat

text \<open>
  Everything else a run reads: the environment and configuration, the files below the
  migrations directory, the modules, and how the remote calls end.
  \<open>snapshotFilename\<close> is the result of \<^verbatim>\<open>getSnapshotFilename()\<close> and \<open>snapshotTables\<close>
  is \<^verbatim>\<open>JSON.parse(fs.readFileSync(path, 'utf8'))\<close> read as a snapshot (\<open>None\<close> when it
  throws; \<open>Some []\<close> when the file has no \<^verbatim>\<open>tables\<close>). The files do not change during a
  run, and \<^verbatim>\<open>readdirSync\<close>, \<^verbatim>\<open>statSync\<close>, \<^verbatim>\<open>existsSync\<close> and \<^verbatim>\<open>readFileSync\<close> are taken
  not to throw on them. \<^verbatim>\<open>createAppwriteClient\<close> builds the client objects and calls
  nothing.
\<close>

record world =
  loadConfigThrows :: bool
  configureClientThrows :: bool
  migrationsDirExists :: bool
  readdirSync :: "string list"
  isDirectory :: "string \<Rightarrow> bool"
  existsSync :: "string \<Rightarrow> bool"
  readFileSync :: "string \<Rightarrow> string"
  jitiImport :: "string \<Rightarrow> import_result"
  snapshotFilename :: string
  snapshotTables :: "string \<Rightarrow> table list option"
  getAppliedMigrationsThrows :: bool
  pushSnapshotThrows :: "string \<Rightarrow> bool"
  listAttributes :: "nat \<Rightarrow> string \<Rightarrow> string \<Rightarrow> attributes_reply"
  recordMigrationThrows :: "string \<Rightarrow> bool"

subsection \<open>What a run does: console lines and calls\<close>

datatype status_flag = APPLIED | PENDING

datatype message =
    Starting
  | Configuring
  | DirectoryNotFound
  | FoundVersions nat
  | SkippingNoIndex string
  | FailedToLoad string
  | InvalidMigration string
  | AlreadyApplied string string
  | Applying string string
  | PushingSnapshot string
  | SchemaPushFailed
  | EnsureCliInstalled
  | NoSnapshot string
  | Executing
  | ScriptFailed
  | Finalizing
  | AppliedSuccessfully string
  | AllApplied
  | PollingStatus
  | SnapshotParseFailed
  | NoDatabaseId string
  | CheckingAttributes string
  | TimedOut string
  | WaitingFor nat
  | ServerError string string
  | Retrying string string
  | NoMigrationsDirectory
  | StatusHeader
  | StatusLine string string status_flag
  | BlankLine
  | StatusCheckFailed

text \<open>
  \<open>Enter version\<close> marks the start of the loop body of \<^verbatim>\<open>runMigrations\<close> for one
  version; the other events are the calls the run makes and the lines it prints.
\<close>

datatype event =
    ConsoleLog message
  | ConsoleWarn message
  | ConsoleError message
  | ConfigureClient
  | GetAppliedMigrations
  | Enter string
  | Import string
  | PushSnapshot string
  | ListAttributes string string
  | Sleep
  | Up string
  | RecordMigration string string

text \<open>
  How a run ends: the promise of \<^verbatim>\<open>runMigrations\<close> resolves, the process exits with
  code 1 inside the run, or an exception leaves \<^verbatim>\<open>runMigrations\<close> (the command
  \<^verbatim>\<open>migrations run\<close> then prints it and exits with code 1).
\<close>

datatype outcome = Resolved | Exit1 | Rejected

section \<open>The readiness loop: waitForAttributes\<close>

definition MAX_ATTEMPTS :: nat where
  "MAX_ATTEMPTS = 60"

text \<open>
  The \<^verbatim>\<open>while (!allAvailable)\<close> loop for one table. \<open>clock\<close> is the number of
  attribute queries the remote has answered so far; the result is the events and the
  clock after the loop.
\<close>

function pollLoop :: "world \<Rightarrow> string \<Rightarrow> string \<Rightarrow> nat \<Rightarrow> nat \<Rightarrow> event list \<times> nat" where
  "pollLoop w databaseId collectionId attempts clock =
     (if attempts \<ge> MAX_ATTEMPTS then ([ConsoleWarn (TimedOut collectionId)], clock)
      else
        (case listAttributes w clock databaseId collectionId of
           Attributes statuses \<Rightarrow>
             (let pending = filter (\<lambda>status. status \<noteq> ''available'') statuses in
              if length pending = 0 then ([ListAttributes databaseId collectionId], Suc clock)
              else
                (case pollLoop w databaseId collectionId (Suc attempts) (Suc clock) of
                   (es, c) \<Rightarrow>
                     (ListAttributes databaseId collectionId
                        # ConsoleLog (WaitingFor (length pending)) # Sleep # es, c)))
         | ListThrows code \<Rightarrow>
             (if code = Some 500
              then ([ListAttributes databaseId collectionId,
                     ConsoleWarn (ServerError collectionId databaseId)], Suc clock)
              else
                (case pollLoop w databaseId collectionId (Suc attempts) (Suc clock) of
                   (es, c) \<Rightarrow>
                     (ListAttributes databaseId collectionId
                        # ConsoleWarn (Retrying collectionId databaseId) # Sleep # es, c)))))"
  by pat_completeness auto
termination
  by (relation "measure (\<lambda>(w, databaseId, collectionId, attempts, clock). MAX_ATTEMPTS - attempts)")
    auto

declare pollLoop.simps [simp del]

text \<open>The \<^verbatim>\<open>for (const table of tables)\<close> loop; a falsy \<^verbatim>\<open>databaseId\<close> skips the table.\<close>

fun pollTables :: "world \<Rightarrow> table list \<Rightarrow> nat \<Rightarrow> event list \<times> nat" where
  "pollTables w [] clock = ([], clock)"
| "pollTables w (t # tables) clock =
     (case table_databaseId t of
        None \<Rightarrow>
          (case pollTables w tables clock of
             (es, c) \<Rightarrow> (ConsoleWarn (NoDatabaseId (table_id t)) # es, c))
      | Some databaseId \<Rightarrow>
          if databaseId = [] then
            (case pollTables w tables clock of
               (es, c) \<Rightarrow> (ConsoleWarn (NoDatabaseId (table_id t)) # es, c))
          else
            (case pollLoop w databaseId (table_id t) 0 clock of
               (es1, c1) \<Rightarrow>
                 (case pollTables w tables c1 of
                    (es2, c2) \<Rightarrow> (ConsoleLog (CheckingAttributes (table_id t)) # es1 @ es2, c2))))"

definition waitForAttributes :: "world \<Rightarrow> string \<Rightarrow> nat \<Rightarrow> event list \<times> nat" where
  "waitForAttributes w snapshotPath clock =
     (case snapshotTables w snapshotPath of
        None \<Rightarrow> ([ConsoleLog PollingStatus, ConsoleError SnapshotParseFailed], clock)
      | Some tables \<Rightarrow>
          (case pollTables w tables clock of
             (es, c) \<Rightarrow> (ConsoleLog PollingStatus # es, c)))"

section \<open>The helpers of the remote store and of the schema tool\<close>

text \<open>
  Modelled from the spec: \<^verbatim>\<open>getAppliedMigrations\<close> of \<^verbatim>\<open>lib/appwrite.js\<close> is not among
  the sources. The spec's \<^verbatim>\<open>loadAppliedIds\<close> "returns every previously recorded migration
  id" and reflects "all prior successful recordApplied calls"; it is a query, so the remote
  is returned as it was. The call can fail (a network call).
\<close>

definition getAppliedMigrations :: "world \<Rightarrow> remote \<Rightarrow> string list option \<times> remote" where
  "getAppliedMigrations w r =
     (if getAppliedMigrationsThrows w then (None, r) else (Some (map fst (applied r)), r))"

text \<open>
  Modelled from the spec: \<^verbatim>\<open>recordMigration\<close> of \<^verbatim>\<open>lib/appwrite.js\<close> is not among the
  sources. The spec's \<^verbatim>\<open>recordApplied(id, versionLabel)\<close> "creates one AppliedRecord", and
  the write can fail, in which case nothing is recorded.
\<close>

definition recordMigration :: "world \<Rightarrow> string \<Rightarrow> string \<Rightarrow> remote \<Rightarrow> remote option" where
  "recordMigration w migrationId version r =
     (if recordMigrationThrows w migrationId then None
      else Some (r\<lparr>applied := applied r @ [(migrationId, version)]\<rparr>))"

text \<open>
  Modelled from the spec: \<^verbatim>\<open>pushSnapshot\<close> of \<^verbatim>\<open>lib/cli.js\<close> is not among the sources.
  The spec's \<^verbatim>\<open>push(snapshotRef) -> success|failure\<close> is opaque; a successful push makes
  the snapshot the latest state of the remote schema.
\<close>

definition pushSnapshot :: "world \<Rightarrow> string \<Rightarrow> remote \<Rightarrow> remote option" where
  "pushSnapshot w snapshotPath r =
     (if pushSnapshotThrows w snapshotPath then None
      else Some (r\<lparr>schema := schema r @ [snapshotPath]\<rparr>))"

section \<open>The run: runMigrations\<close>

text \<open>The loop body either falls through to the next version or ends the run.\<close>

datatype flow = Next | Stop outcome

text \<open>\<^verbatim>\<open>fs.existsSync(indexFile) ? indexFile : fs.existsSync(indexFileJs) ? indexFileJs : null\<close>\<close>

definition validIndexFile :: "world \<Rightarrow> string \<Rightarrow> string option" where
  "validIndexFile w version =
     (let versionPath = version;
          indexFile = pathJoin versionPath ''index.ts'';
          indexFileJs = pathJoin versionPath ''index.js''
      in if existsSync w indexFile then Some indexFile
         else if existsSync w indexFileJs then Some indexFileJs
         else None)"

text \<open>
  \<^verbatim>\<open>!migration || !migration.id\<close> on the default export: the id of a migration that
  passes, \<open>None\<close> for one that is rejected. An absent or empty id is falsy.
\<close>

definition checkedId :: "migration option \<Rightarrow> string option" where
  "checkedId migration =
     (case migration of
        None \<Rightarrow> None
      | Some m \<Rightarrow>
          (case migration_id m of
             None \<Rightarrow> None
           | Some i \<Rightarrow> if i = [] then None else Some i))"

text \<open>
  Steps 6 and 7 of the loop body: \<^verbatim>\<open>up\<close> is awaited if it is there, a throw ends the
  process; then the migration is recorded.
\<close>

definition executeAndFinalize ::
  "world \<Rightarrow> string \<Rightarrow> string \<Rightarrow> up_result option \<Rightarrow> remote \<Rightarrow> event list \<times> remote \<times> flow"
where
  "executeAndFinalize w version migrationId up r =
     (case up of
        Some UpThrows \<Rightarrow>
          ([ConsoleLog Executing, Up version, ConsoleError ScriptFailed], r, Stop Exit1)
      | _ \<Rightarrow>
          (let es = (case up of
                       None \<Rightarrow> [ConsoleLog Executing]
                     | Some _ \<Rightarrow> [ConsoleLog Executing, Up version])
           in case recordMigration w migrationId version r of
                None \<Rightarrow>
                  (es @ [ConsoleLog Finalizing, RecordMigration migrationId version],
                   r, Stop Rejected)
              | Some r' \<Rightarrow>
                  (es @ [ConsoleLog Finalizing, RecordMigration migrationId version,
                         ConsoleLog (AppliedSuccessfully version)],
                   r', Next)))"

text \<open>
  Steps 3 to 7 for a version that is not applied yet: the schema push (if the snapshot
  file is there), the attribute polling (if the snapshot file is there), then the
  execution and the finalization.
\<close>

definition applyVersion ::
  "world \<Rightarrow> string \<Rightarrow> string \<Rightarrow> up_result option \<Rightarrow> remote \<Rightarrow> event list \<times> remote \<times> flow"
where
  "applyVersion w version migrationId up r =
     (let versionPath = version;
          snapshotPath = pathJoin versionPath (snapshotFilename w)
      in if existsSync w snapshotPath then
           (case pushSnapshot w snapshotPath r of
              None \<Rightarrow>
                ([ConsoleLog (Applying version migrationId),
                  ConsoleLog (PushingSnapshot version), PushSnapshot snapshotPath,
                  ConsoleError SchemaPushFailed, ConsoleError EnsureCliInstalled],
                 r, Stop Exit1)
            | Some r1 \<Rightarrow>
                (case waitForAttributes w snapshotPath (queries r1) of
                   (es1, c) \<Rightarrow>
                     (case executeAndFinalize w version migrationId up (r1\<lparr>queries := c\<rparr>) of
                        (es2, r2, fl) \<Rightarrow>
                          ([ConsoleLog (Applying version migrationId),
                            ConsoleLog (PushingSnapshot version), PushSnapshot snapshotPath]
                             @ es1 @ es2,
                           r2, fl))))
         else
           (case executeAndFinalize w version migrationId up r of
              (es2, r2, fl) \<Rightarrow>
                ([ConsoleLog (Applying version migrationId), ConsoleWarn (NoSnapshot version)]
                   @ es2,
                 r2, fl)))"

text \<open>The body of \<^verbatim>\<open>for (const version of versionDirs)\<close>.\<close>

definition processVersion ::
  "world \<Rightarrow> string list \<Rightarrow> string \<Rightarrow> remote \<Rightarrow> event list \<times> remote \<times> flow"
where
  "processVersion w appliedIds version r =
     (case validIndexFile w version of
        None \<Rightarrow> ([ConsoleWarn (SkippingNoIndex version)], r, Next)
      | Some file \<Rightarrow>
          (case jitiImport w file of
             ImportThrows \<Rightarrow> ([Import file, ConsoleError (FailedToLoad file)], r, Stop Exit1)
           | Module migration \<Rightarrow>
               (case checkedId migration of
                  None \<Rightarrow>
                    ([Import file, ConsoleError (InvalidMigration version)], r, Stop Exit1)
                | Some migrationId \<Rightarrow>
                    if migrationId \<in> set appliedIds then
                      ([Import file, ConsoleLog (AlreadyApplied version migrationId)], r, Next)
                    else
                      (case applyVersion w version migrationId
                              (case migration of None \<Rightarrow> None | Some m \<Rightarrow> migration_up m) r of
                         (es, r', fl) \<Rightarrow> (Import file # es, r', fl)))))"

text \<open>
  The loop over the sorted version directories with the set of applied ids that was
  loaded before the loop; \<open>None\<close> when the loop ran to its end.
\<close>

fun forVersions ::
  "world \<Rightarrow> string list \<Rightarrow> string list \<Rightarrow> remote \<Rightarrow> event list \<times> remote \<times> outcome option"
where
  "forVersions w appliedIds [] r = ([], r, None)"
| "forVersions w appliedIds (version # versions) r =
     (case processVersion w appliedIds version r of
        (es, r', Stop out) \<Rightarrow> (Enter version # es, r', Some out)
      | (es, r', Next) \<Rightarrow>
          (case forVersions w appliedIds versions r' of
             (es', r'', out) \<Rightarrow> (Enter version # es @ es', r'', out)))"

text \<open>Step 1, discovery: the entries that start with \<^verbatim>\<open>v\<close> and are directories, sorted.\<close>

definition versionDirs :: "world \<Rightarrow> string list" where
  "versionDirs w =
     arraySort compareVersions
       (filter (\<lambda>dir. startsWith dir ''v'' \<and> isDirectory w dir) (readdirSync w))"

definition runMigrations :: "world \<Rightarrow> remote \<Rightarrow> event list \<times> remote \<times> outcome" where
  "runMigrations w r =
     (if loadConfigThrows w then ([], r, Rejected)
      else if configureClientThrows w then
        ([ConsoleLog Starting, ConsoleLog Configuring, ConfigureClient], r, Rejected)
      else if \<not> migrationsDirExists w then
        ([ConsoleLog Starting, ConsoleLog Configuring, ConfigureClient,
          ConsoleError DirectoryNotFound], r, Exit1)
      else
        (case getAppliedMigrations w r of
           (None, r0) \<Rightarrow>
             ([ConsoleLog Starting, ConsoleLog Configuring, ConfigureClient,
               ConsoleLog (FoundVersions (length (versionDirs w))), GetAppliedMigrations],
              r0, Rejected)
         | (Some appliedMigrationIds, r0) \<Rightarrow>
             (case forVersions w appliedMigrationIds (versionDirs w) r0 of
                (es, r', Some out) \<Rightarrow>
                  ([ConsoleLog Starting, ConsoleLog Configuring, ConfigureClient,
                    ConsoleLog (FoundVersions (length (versionDirs w))), GetAppliedMigrations]
                     @ es,
                   r', out)
              | (es, r', None) \<Rightarrow>
                  ([ConsoleLog Starting, ConsoleLog Configuring, ConfigureClient,
                    ConsoleLog (FoundVersions (length (versionDirs w))), GetAppliedMigrations]
                     @ es @ [ConsoleLog AllApplied],
                   r', Resolved))))"

section \<open>The status command: migrations status\<close>

text \<open>
  \<^verbatim>\<open>content.match(/id:\s*["']([^"']+)["']/)\<close>: the first capture group of the leftmost
  match. After \<^verbatim>\<open>id:\<close> and white space comes one quote, then the longest run of
  characters that are not quotes, which must not be empty and must be followed by a
  quote. No shorter run can match, since the character after it would not be a quote.
  White space is the ASCII white space, as for \<open>parseInt\<close>.
\<close>

definition isQuote :: "char \<Rightarrow> bool" where
  "isQuote c = (c = CHR 0x22 \<or> c = CHR 0x27)"

definition matchIdAt :: "string \<Rightarrow> string option" where
  "matchIdAt s =
     (if startsWith s ''id:'' then
        (case dropWhile isWhiteSpace (drop 3 s) of
           [] \<Rightarrow> None
         | q # rest \<Rightarrow>
             if isQuote q then
               (let captured = takeWhile (\<lambda>c. \<not> isQuote c) rest;
                    after = dropWhile (\<lambda>c. \<not> isQuote c) rest
                in if captured \<noteq> [] \<and> after \<noteq> [] then Some captured else None)
             else None)
      else None)"

fun matchId :: "string \<Rightarrow> string option" where
  "matchId [] = None"
| "matchId (c # cs) =
     (case matchIdAt (c # cs) of Some m \<Rightarrow> Some m | None \<Rightarrow> matchId cs)"

text \<open>The id that the status loop shows for a version.\<close>

definition statusId :: "world \<Rightarrow> string \<Rightarrow> string" where
  "statusId w version =
     (let indexPath = pathJoin version ''index.ts'' in
      if existsSync w indexPath then
        (case matchId (readFileSync w indexPath) of Some m \<Rightarrow> m | None \<Rightarrow> ''unknown'')
      else ''unknown'')"

definition statusLine :: "world \<Rightarrow> string list \<Rightarrow> string \<Rightarrow> message" where
  "statusLine w appliedIds version =
     (let i = statusId w version in
      StatusLine version i (if i \<in> set appliedIds then APPLIED else PENDING))"

text \<open>
  The action of the command, with the helper that loads the applied ids as a parameter:
  the command itself makes no other call to the remote. Any exception is caught, printed,
  and ends the process with code 1.
\<close>

definition statusAction ::
  "(world \<Rightarrow> remote \<Rightarrow> string list option \<times> remote) \<Rightarrow> world \<Rightarrow> remote
     \<Rightarrow> event list \<times> remote \<times> outcome"
where
  "statusAction loadApplied w r =
     (if loadConfigThrows w then ([ConsoleError StatusCheckFailed], r, Exit1)
      else
        (case loadApplied w r of
           (None, r') \<Rightarrow> ([GetAppliedMigrations, ConsoleError StatusCheckFailed], r', Exit1)
         | (Some appliedIds, r') \<Rightarrow>
             if \<not> migrationsDirExists w then
               ([GetAppliedMigrations, ConsoleLog NoMigrationsDirectory], r', Resolved)
             else
               (GetAppliedMigrations # ConsoleLog StatusHeader
                  # map (\<lambda>version. ConsoleLog (statusLine w appliedIds version)) (versionDirs w)
                  @ [ConsoleLog BlankLine],
                r', Resolved)))"

definition migrationsStatus :: "world \<Rightarrow> remote \<Rightarrow> event list \<times> remote \<times> outcome" where
  "migrationsStatus = statusAction getAppliedMigrations"

section \<open>Reading a trace\<close>

fun enteredOf :: "event \<Rightarrow> string list" where
  "enteredOf (Enter version) = [version]"
| "enteredOf _ = []"

text \<open>The versions whose loop body was started, in the order of the run.\<close>

definition entered :: "event list \<Rightarrow> string list" where
  "entered es = concat (map enteredOf es)"

fun isPushSnapshot :: "event \<Rightarrow> bool" where
  "isPushSnapshot (PushSnapshot p) = True"
| "isPushSnapshot _ = False"

fun isListAttributes :: "event \<Rightarrow> bool" where
  "isListAttributes (ListAttributes d c) = True"
| "isListAttributes _ = False"

fun isUp :: "event \<Rightarrow> bool" where
  "isUp (Up version) = True"
| "isUp _ = False"

fun isRecordMigration :: "event \<Rightarrow> bool" where
  "isRecordMigration (RecordMigration i version) = True"
| "isRecordMigration _ = False"

fun isImport :: "event \<Rightarrow> bool" where
  "isImport (Import f) = True"
| "isImport _ = False"

text \<open>The events of the readiness loop: console lines, attribute queries and sleeps.\<close>

fun pollEvent :: "event \<Rightarrow> bool" where
  "pollEvent (ConsoleLog m) = True"
| "pollEvent (ConsoleWarn m) = True"
| "pollEvent (ConsoleError m) = True"
| "pollEvent (ListAttributes d c) = True"
| "pollEvent Sleep = True"
| "pollEvent _ = False"

text \<open>
  A version that a run passes over without applying it: it has no index file, or its
  migration loads, passes the check, and has its id among the applied ids.
\<close>

definition passedOver :: "world \<Rightarrow> string list \<Rightarrow> string \<Rightarrow> bool" where
  "passedOver w appliedIds version =
     (case validIndexFile w version of
        None \<Rightarrow> True
      | Some file \<Rightarrow>
          (case jitiImport w file of
             ImportThrows \<Rightarrow> False
           | Module migration \<Rightarrow>
               (case checkedId migration of
                  None \<Rightarrow> False
                | Some migrationId \<Rightarrow> migrationId \<in> set appliedIds)))"



text \<open>The three parts of the result of a run, of a loop and of a loop body.\<close>

definition trace :: "event list \<times> remote \<times> 'a \<Rightarrow> event list" where
  "trace result = fst result"

definition remoteAfter :: "event list \<times> remote \<times> 'a \<Rightarrow> remote" where
  "remoteAfter result = fst (snd result)"

definition ending :: "event list \<times> remote \<times> 'a \<Rightarrow> 'a" where
  "ending result = snd (snd result)"

section \<open>Example projects\<close>

text \<open>
  A project with three versions, listed by the file system out of order. \<^verbatim>\<open>v1\<close> has an
  \<^verbatim>\<open>index.ts\<close> with id \<^verbatim>\<open>A\<close> and no snapshot; \<^verbatim>\<open>v2\<close> has an \<^verbatim>\<open>index.ts\<close> with id \<^verbatim>\<open>B\<close> and a
  snapshot with one table, whose attribute becomes available after two polls; \<^verbatim>\<open>v10\<close> has
  only an \<^verbatim>\<open>index.js\<close>, with id \<^verbatim>\<open>C\<close> and no \<^verbatim>\<open>up\<close>.
\<close>

definition indexSource :: "string \<Rightarrow> string" where
  "indexSource i = ''const migration = { id: '' @ [CHR 0x22] @ i @ [CHR 0x22] @ '', up: f };''"

definition project :: world where
  "project =
     \<lparr>loadConfigThrows = False,
      configureClientThrows = False,
      migrationsDirExists = True,
      readdirSync = [''v10'', ''v2'', ''config.json'', ''v1''],
      isDirectory = (\<lambda>dir. dir \<in> set [''v10'', ''v2'', ''v1'']),
      existsSync =
        (\<lambda>p. p \<in> set [''v1/index.ts'', ''v2/index.ts'', ''v2/appwrite.config.json'',
                      ''v10/index.js'']),
      readFileSync =
        (\<lambda>p. if p = ''v1/index.ts'' then indexSource ''A''
             else if p = ''v2/index.ts'' then indexSource ''B'' else []),
      jitiImport =
        (\<lambda>p. if p = ''v1/index.ts''
               then Module (Some \<lparr>migration_id = Some ''A'', migration_up = Some UpReturns\<rparr>)
             else if p = ''v2/index.ts''
               then Module (Some \<lparr>migration_id = Some ''B'', migration_up = Some UpReturns\<rparr>)
             else if p = ''v10/index.js''
               then Module (Some \<lparr>migration_id = Some ''C'', migration_up = None\<rparr>)
             else ImportThrows),
      snapshotFilename = ''appwrite.config.json'',
      snapshotTables =
        (\<lambda>p. Some [\<lparr>table_id = ''T'', table_name = ''T'', table_databaseId = Some ''db''\<rparr>]),
      getAppliedMigrationsThrows = False,
      pushSnapshotThrows = (\<lambda>p. False),
      listAttributes =
        (\<lambda>clock databaseId collectionId.
           if clock < 2 then Attributes [''processing''] else Attributes [''available'']),
      recordMigrationThrows = (\<lambda>i. False)\<rparr>"

definition emptyRemote :: remote where
  "emptyRemote = \<lparr>applied = [], schema = [], queries = 0\<rparr>"


text \<open>The project with a \<^verbatim>\<open>v2\<close> whose \<^verbatim>\<open>up\<close> throws.\<close>

definition failingProject :: world where
  "failingProject =
     project
       \<lparr>jitiImport :=
          (\<lambda>p. if p = ''v2/index.ts''
                 then Module (Some \<lparr>migration_id = Some ''B'', migration_up = Some UpThrows\<rparr>)
               else jitiImport project p)\<rparr>"






section \<open>Properties of the sort and of the traces\<close>

lemma set_insertSorted: "set (insertSorted f x ys) = insert x (set ys)"
  by (induction ys) auto

lemma set_arraySort: "set (arraySort f xs) = set xs"
  by (induction xs) (auto simp: set_insertSorted)

lemma numbered_ordinal: "numbered a \<Longrightarrow> \<exists>n. ordinal a = Some n"
  by (auto simp: numbered_def split: option.splits)













lemma pollLoop_pollEvent: "list_all pollEvent (fst (pollLoop w d c a k))"
proof (induction w d c a k rule: pollLoop.induct)
  case (1 w d c a k)
  show ?case
    using "1.IH"
    by (subst pollLoop.simps) (auto simp: Let_def split: attributes_reply.splits prod.splits)
qed

lemma pollTables_pollEvent: "list_all pollEvent (fst (pollTables w ts k))"
proof (induction ts arbitrary: k)
  case Nil
  then show ?case by simp
next
  case (Cons t ts)
  have "list_all pollEvent (fst (pollLoop w d (table_id t) 0 k))" for d
    by (rule pollLoop_pollEvent)
  moreover have "list_all pollEvent (fst (pollTables w ts k'))" for k'
    by (rule Cons.IH)
  ultimately show ?case
    by (auto split: option.splits prod.splits) (metis fst_conv)+
qed

lemma waitForAttributes_pollEvent: "list_all pollEvent (fst (waitForAttributes w p k))"
  using pollTables_pollEvent [of w _ k]
  by (auto simp: waitForAttributes_def split: option.splits prod.splits) (metis fst_conv)

lemma pollEvent_kind:
  "pollEvent e \<Longrightarrow> enteredOf e = [] \<and> \<not> isUp e \<and> \<not> isRecordMigration e \<and> \<not> isPushSnapshot e"
  by (cases e) auto

lemma pollEvent_quiet:
  assumes "list_all pollEvent es"
  shows "entered es = []" and "filter isUp es = []" and "filter isRecordMigration es = []"
    and "filter isPushSnapshot es = []"
  using assms by (induction es) (auto simp: entered_def dest: pollEvent_kind)


lemma result_parts [simp]:
  "trace (es, r, x) = es" "remoteAfter (es, r, x) = r" "ending (es, r, x) = x"
  by (simp_all add: trace_def remoteAfter_def ending_def)

lemma entered_simps [simp]:
  "entered [] = []" "entered (e # es) = enteredOf e @ entered es"
  "entered (es @ es') = entered es @ entered es'"
  by (simp_all add: entered_def)

lemma entered_waitForAttributes [simp]: "entered (fst (waitForAttributes w p k)) = []"
  by (simp add: pollEvent_quiet(1) waitForAttributes_pollEvent)

lemma entered_executeAndFinalize [simp]:
  "entered (trace (executeAndFinalize w v i up r)) = []"
  by (simp add: executeAndFinalize_def recordMigration_def
      split: option.splits up_result.splits)

lemma entered_applyVersion [simp]: "entered (trace (applyVersion w v i up r)) = []"
proof -
  have a: "entered es2 = []" if "executeAndFinalize w v i up r' = (es2, r2, fl)" for es2 r2 fl r'
    using entered_executeAndFinalize [of w v i up r'] that by simp
  have b: "entered es1 = []" if "waitForAttributes w p k = (es1, c)" for es1 c p k
    using entered_waitForAttributes [of w p k] that by simp
  show ?thesis
    by (auto simp: applyVersion_def Let_def a b split: option.splits prod.splits)
qed

lemma entered_processVersion [simp]: "entered (trace (processVersion w a v r)) = []"
proof -
  have "entered es = []" if "applyVersion w v i up r = (es, r', fl)" for es r' fl i up
    using entered_applyVersion [of w v i up r] that by simp
  then show ?thesis
    by (auto simp: processVersion_def split: option.splits import_result.splits prod.splits)
qed


lemma entered_forVersions_all:
  "ending (forVersions w a vs r) = None \<Longrightarrow> entered (trace (forVersions w a vs r)) = vs"
proof (induction vs arbitrary: r)
  case Nil
  then show ?case by simp
next
  case (Cons v vs)
  obtain es r' fl where pv: "processVersion w a v r = (es, r', fl)"
    by (cases "processVersion w a v r") auto
  with entered_processVersion [of w a v r] have es: "entered es = []" by simp
  obtain es' r'' out where fv: "forVersions w a vs r' = (es', r'', out)"
    by (cases "forVersions w a vs r'") auto
  from Cons.prems pv fv have fl: "fl = Next" and out: "out = None"
    by (cases fl; simp)+
  with Cons.IH [of r'] fv have "entered es' = vs" by simp
  with pv fv fl es show ?case by simp
qed


lemma processVersion_not_Resolved: "ending (processVersion w a v r) \<noteq> Stop Resolved"
  by (auto simp: processVersion_def applyVersion_def executeAndFinalize_def Let_def
      split: option.splits import_result.splits prod.splits up_result.splits)

lemma forVersions_not_Resolved: "ending (forVersions w a vs r) \<noteq> Some Resolved"
proof (induction vs arbitrary: r)
  case Nil
  then show ?case by simp
next
  case (Cons v vs)
  obtain es r' fl where pv: "processVersion w a v r = (es, r', fl)"
    by (cases "processVersion w a v r") auto
  with processVersion_not_Resolved [of w a v r] have fl: "fl \<noteq> Stop Resolved" by simp
  obtain es' r'' out where fv: "forVersions w a vs r' = (es', r'', out)"
    by (cases "forVersions w a vs r'") auto
  with Cons.IH [of r'] have "out \<noteq> Some Resolved" by simp
  with pv fv fl show ?case by (cases fl) auto
qed

lemma runMigrations_Resolved:
  assumes "ending (runMigrations w r) = Resolved"
  shows "\<not> getAppliedMigrationsThrows w"
    and "ending (forVersions w (map fst (applied r)) (versionDirs w) r) = None"
    and "trace (runMigrations w r) =
           [ConsoleLog Starting, ConsoleLog Configuring, ConfigureClient,
            ConsoleLog (FoundVersions (length (versionDirs w))), GetAppliedMigrations]
           @ trace (forVersions w (map fst (applied r)) (versionDirs w) r)
           @ [ConsoleLog AllApplied]"
    and "remoteAfter (runMigrations w r) =
           remoteAfter (forVersions w (map fst (applied r)) (versionDirs w) r)"
proof -
  from assms have ok: "\<not> loadConfigThrows w" "\<not> configureClientThrows w" "migrationsDirExists w"
    by (auto simp: runMigrations_def split: if_splits)
  from assms ok show get: "\<not> getAppliedMigrationsThrows w"
    by (auto simp: runMigrations_def getAppliedMigrations_def split: if_splits)
  obtain es r' out where fv:
    "forVersions w (map fst (applied r)) (versionDirs w) r = (es, r', out)"
    by (cases "forVersions w (map fst (applied r)) (versionDirs w) r") auto
  with forVersions_not_Resolved [of w "map fst (applied r)" "versionDirs w" r]
  have nr: "out \<noteq> Some Resolved" by simp
  from assms ok get fv nr have out: "out = None"
    by (cases out) (auto simp: runMigrations_def getAppliedMigrations_def)
  with fv show "ending (forVersions w (map fst (applied r)) (versionDirs w) r) = None"
    by simp
  from ok get fv out show "trace (runMigrations w r) =
           [ConsoleLog Starting, ConsoleLog Configuring, ConfigureClient,
            ConsoleLog (FoundVersions (length (versionDirs w))), GetAppliedMigrations]
           @ trace (forVersions w (map fst (applied r)) (versionDirs w) r)
           @ [ConsoleLog AllApplied]"
    by (simp add: runMigrations_def getAppliedMigrations_def)
  from ok get fv out show "remoteAfter (runMigrations w r) =
           remoteAfter (forVersions w (map fst (applied r)) (versionDirs w) r)"
    by (simp add: runMigrations_def getAppliedMigrations_def)
qed

lemma entered_runMigrations_Resolved:
  assumes "ending (runMigrations w r) = Resolved"
  shows "entered (trace (runMigrations w r)) = versionDirs w"
  using runMigrations_Resolved(2,3) [OF assms] entered_forVersions_all by simp







lemma waitForAttributes_quiet:
  assumes "waitForAttributes w p k = (es, c)"
  shows "entered es = []" and "filter isUp es = []" and "filter isRecordMigration es = []"
    and "filter isPushSnapshot es = []"
  using pollEvent_quiet [of es] waitForAttributes_pollEvent [of w p k] assms by simp_all


lemma passedOver_mono:
  "passedOver w a v \<Longrightarrow> set a \<subseteq> set a' \<Longrightarrow> passedOver w a' v"
  by (auto simp: passedOver_def split: option.splits import_result.splits)

lemma executeAndFinalize_applied:
  "executeAndFinalize w v i up r = (es, r', fl)
     \<Longrightarrow> set (applied r) \<subseteq> set (applied r') \<and> (fl = Next \<longrightarrow> (i, v) \<in> set (applied r'))"
  by (auto simp: executeAndFinalize_def recordMigration_def
      split: option.splits up_result.splits if_splits)

lemma applyVersion_applied:
  assumes "applyVersion w v i up r = (es, r', fl)"
  shows "set (applied r) \<subseteq> set (applied r') \<and> (fl = Next \<longrightarrow> (i, v) \<in> set (applied r'))"
proof (cases "existsSync w (pathJoin v (snapshotFilename w))")
  case True
  show ?thesis
  proof (cases "pushSnapshotThrows w (pathJoin v (snapshotFilename w))")
    case True
    with assms \<open>existsSync w (pathJoin v (snapshotFilename w))\<close> show ?thesis
      by (auto simp: applyVersion_def pushSnapshot_def Let_def)
  next
    case False
    let ?p = "pathJoin v (snapshotFilename w)"
    let ?r1 = "r\<lparr>schema := schema r @ [?p]\<rparr>"
    obtain es1 c where wa: "waitForAttributes w ?p (queries ?r1) = (es1, c)"
      by (meson surj_pair)
    obtain es2 r2 fl2 where ef: "executeAndFinalize w v i up (?r1\<lparr>queries := c\<rparr>) = (es2, r2, fl2)"
      by (metis prod_cases3)
    from assms True False wa ef have "r' = r2" "fl = fl2"
      by (auto simp: applyVersion_def pushSnapshot_def Let_def)
    with executeAndFinalize_applied [OF ef] show ?thesis by simp
  qed
next
  case False
  obtain es2 r2 fl2 where ef: "executeAndFinalize w v i up r = (es2, r2, fl2)"
    by (metis prod_cases3)
  from assms False ef have "r' = r2" "fl = fl2"
    by (auto simp: applyVersion_def Let_def)
  with executeAndFinalize_applied [OF ef] show ?thesis by simp
qed

lemma processVersion_cases:
  assumes "processVersion w a v r = (es, r', fl)"
  shows "r' = r \<or> (\<exists>i up es2. applyVersion w v i up r = (es2, r', fl))"
proof (cases "validIndexFile w v")
  case None
  with assms show ?thesis by (simp add: processVersion_def)
next
  case (Some f)
  show ?thesis
  proof (cases "jitiImport w f")
    case ImportThrows
    with Some assms show ?thesis by (simp add: processVersion_def)
  next
    case (Module migration)
    show ?thesis
    proof (cases "checkedId migration")
      case None
      with \<open>validIndexFile w v = Some f\<close> Module assms show ?thesis
        by (simp add: processVersion_def)
    next
      case (Some i)
      show ?thesis
      proof (cases "i \<in> set a")
        case True
        with \<open>validIndexFile w v = Some f\<close> Module Some assms show ?thesis
          by (simp add: processVersion_def)
      next
        case False
        obtain es2 r2 fl2 where av:
          "applyVersion w v i (case migration of None \<Rightarrow> None | Some m \<Rightarrow> migration_up m) r
             = (es2, r2, fl2)"
          by (metis prod_cases3)
        with assms \<open>validIndexFile w v = Some f\<close> Module Some False
        have "r' = r2" "fl = fl2"
          by (simp_all add: processVersion_def)
        with av show ?thesis by blast
      qed
    qed
  qed
qed

lemma processVersion_applied_grows:
  assumes "processVersion w a v r = (es, r', fl)"
  shows "set (applied r) \<subseteq> set (applied r')"
  using processVersion_cases [OF assms] applyVersion_applied by blast

lemma processVersion_Next_passedOver:
  assumes "processVersion w a v r = (es, r', Next)"
    and "set a \<subseteq> set a'" and "fst ` set (applied r') \<subseteq> set a'"
  shows "passedOver w a' v"
proof (cases "validIndexFile w v")
  case None
  then show ?thesis by (simp add: passedOver_def)
next
  case (Some f)
  show ?thesis
  proof (cases "jitiImport w f")
    case ImportThrows
    with Some assms(1) show ?thesis by (simp add: processVersion_def)
  next
    case (Module migration)
    show ?thesis
    proof (cases "checkedId migration")
      case None
      with Some Module assms(1) show ?thesis by (simp add: processVersion_def)
    next
      case (Some i)
      have "i \<in> set a'"
      proof (cases "i \<in> set a")
        case True
        with assms(2) show ?thesis by blast
      next
        case False
        obtain es2 r2 fl2 where av:
          "applyVersion w v i (case migration of None \<Rightarrow> None | Some m \<Rightarrow> migration_up m) r
             = (es2, r2, fl2)"
          by (metis prod_cases3)
        with assms(1) \<open>validIndexFile w v = Some f\<close> Module Some False
        have "r' = r2" "fl2 = Next"
          by (simp_all add: processVersion_def)
        with applyVersion_applied [OF av] have "(i, v) \<in> set (applied r')" by simp
        then have "i \<in> fst ` set (applied r')" by force
        with assms(3) show ?thesis by blast
      qed
      with \<open>validIndexFile w v = Some f\<close> Module Some show ?thesis
        by (simp add: passedOver_def)
    qed
  qed
qed

lemma forVersions_applied_grows:
  "forVersions w a vs r = (es, r', out) \<Longrightarrow> set (applied r) \<subseteq> set (applied r')"
proof (induction vs arbitrary: r es r' out)
  case Nil
  then show ?case by simp
next
  case (Cons v vs)
  obtain es1 r1 fl where pv: "processVersion w a v r = (es1, r1, fl)"
    by (metis prod_cases3)
  note g = processVersion_applied_grows [OF pv]
  show ?case
  proof (cases fl)
    case Next
    obtain es2 r2 out2 where fv: "forVersions w a vs r1 = (es2, r2, out2)"
      by (metis prod_cases3)
    with Cons.prems pv Next have "r' = r2" by simp
    with Cons.IH [OF fv] g show ?thesis by blast
  next
    case (Stop x)
    with Cons.prems pv have "r' = r1" by simp
    with g show ?thesis by simp
  qed
qed

lemma forVersions_completed_passedOver:
  "forVersions w a vs r = (es, r', None) \<Longrightarrow> set a \<subseteq> set a'
     \<Longrightarrow> fst ` set (applied r') \<subseteq> set a' \<Longrightarrow> list_all (passedOver w a') vs"
proof (induction vs arbitrary: r es)
  case Nil
  then show ?case by simp
next
  case (Cons v vs)
  obtain es1 r1 fl where pv: "processVersion w a v r = (es1, r1, fl)"
    by (metis prod_cases3)
  obtain es2 r2 out2 where fv: "forVersions w a vs r1 = (es2, r2, out2)"
    by (metis prod_cases3)
  from Cons.prems(1) pv fv have fl: "fl = Next"
    by (cases fl) simp_all
  with Cons.prems(1) pv fv have "out2 = None" and "r2 = r'"
    by simp_all
  with fv have fv': "forVersions w a vs r1 = (es2, r', None)"
    by simp
  from forVersions_applied_grows [OF fv'] Cons.prems(3)
  have "fst ` set (applied r1) \<subseteq> set a'"
    by (meson image_mono subset_trans)
  with pv fl Cons.prems(2) have "passedOver w a' v"
    by (simp add: processVersion_Next_passedOver)
  moreover have "list_all (passedOver w a') vs"
    by (rule Cons.IH [OF fv' Cons.prems(2,3)])
  ultimately show ?case by simp
qed

lemma processVersion_passedOver:
  "passedOver w a v \<Longrightarrow>
     \<exists>es. processVersion w a v r = (es, r, Next) \<and> filter isPushSnapshot es = [] \<and>
       filter isUp es = [] \<and> filter isRecordMigration es = [] \<and>
       filter isListAttributes es = []"
  by (auto simp: passedOver_def processVersion_def
      split: option.split_asm import_result.split_asm)

lemma forVersions_passedOver:
  "list_all (passedOver w a) vs \<Longrightarrow>
     \<exists>es. forVersions w a vs r = (es, r, None) \<and> filter isPushSnapshot es = [] \<and>
       filter isUp es = [] \<and> filter isRecordMigration es = [] \<and>
       filter isListAttributes es = []"
proof (induction vs)
  case Nil
  then show ?case by simp
next
  case (Cons v vs)
  from Cons.prems processVersion_passedOver [of w a v r]
  obtain es1 where pv: "processVersion w a v r = (es1, r, Next)"
    and q1: "filter isPushSnapshot es1 = []" "filter isUp es1 = []"
      "filter isRecordMigration es1 = []" "filter isListAttributes es1 = []"
    by auto
  from Cons obtain es2 where fv: "forVersions w a vs r = (es2, r, None)"
    and q2: "filter isPushSnapshot es2 = []" "filter isUp es2 = []"
      "filter isRecordMigration es2 = []" "filter isListAttributes es2 = []"
    by auto
  from pv fv q1 q2 show ?case by simp
qed


lemma runMigrations_Resolved_config:
  assumes "ending (runMigrations w r) = Resolved"
  shows "\<not> loadConfigThrows w" and "\<not> configureClientThrows w" and "migrationsDirExists w"
  using assms by (auto simp: runMigrations_def split: if_splits)

lemma runMigrations_completed:
  assumes "\<not> loadConfigThrows w" and "\<not> configureClientThrows w" and "migrationsDirExists w"
    and "\<not> getAppliedMigrationsThrows w"
    and "forVersions w (map fst (applied r)) (versionDirs w) r = (es, r', None)"
  shows "runMigrations w r =
           ([ConsoleLog Starting, ConsoleLog Configuring, ConfigureClient,
             ConsoleLog (FoundVersions (length (versionDirs w))), GetAppliedMigrations]
              @ es @ [ConsoleLog AllApplied], r', Resolved)"
  using assms by (simp add: runMigrations_def getAppliedMigrations_def)









lemma applyVersion_pushed:
  assumes "existsSync w (pathJoin v (snapshotFilename w))"
    and "\<not> pushSnapshotThrows w (pathJoin v (snapshotFilename w))"
  shows "applyVersion w v i up r =
     ([ConsoleLog (Applying v i), ConsoleLog (PushingSnapshot v),
       PushSnapshot (pathJoin v (snapshotFilename w))]
        @ fst (waitForAttributes w (pathJoin v (snapshotFilename w)) (queries r))
        @ trace (executeAndFinalize w v i up
            (r\<lparr>schema := schema r @ [pathJoin v (snapshotFilename w)],
               queries := snd (waitForAttributes w (pathJoin v (snapshotFilename w)) (queries r))\<rparr>)),
      remoteAfter (executeAndFinalize w v i up
            (r\<lparr>schema := schema r @ [pathJoin v (snapshotFilename w)],
               queries := snd (waitForAttributes w (pathJoin v (snapshotFilename w)) (queries r))\<rparr>)),
      ending (executeAndFinalize w v i up
            (r\<lparr>schema := schema r @ [pathJoin v (snapshotFilename w)],
               queries := snd (waitForAttributes w (pathJoin v (snapshotFilename w)) (queries r))\<rparr>)))"
  using assms
  by (simp add: applyVersion_def pushSnapshot_def Let_def split: prod.splits)


lemma executeAndFinalize_quiet:
  "filter isPushSnapshot (trace (executeAndFinalize w v i up r)) = [] \<and>
   filter isListAttributes (trace (executeAndFinalize w v i up r)) = [] \<and>
   schema (remoteAfter (executeAndFinalize w v i up r)) = schema r \<and>
   queries (remoteAfter (executeAndFinalize w v i up r)) = queries r \<and>
   take 1 (trace (executeAndFinalize w v i up r)) = [ConsoleLog Executing]"
  by (auto simp: executeAndFinalize_def recordMigration_def
      split: option.splits up_result.splits)

lemma executeAndFinalize_recorded:
  "up \<noteq> Some UpThrows \<Longrightarrow> \<not> recordMigrationThrows w i
     \<Longrightarrow> ending (executeAndFinalize w v i up r) = Next \<and>
         applied (remoteAfter (executeAndFinalize w v i up r)) = applied r @ [(i, v)] \<and>
         filter isRecordMigration (trace (executeAndFinalize w v i up r)) = [RecordMigration i v] \<and>
         filter isUp (trace (executeAndFinalize w v i up r)) = (if up = None then [] else [Up v])"
  by (auto simp: executeAndFinalize_def recordMigration_def
      split: option.splits up_result.splits)

lemma applyVersion_no_snapshot:
  "\<not> existsSync w (pathJoin v (snapshotFilename w))
     \<Longrightarrow> applyVersion w v i up r =
          (ConsoleLog (Applying v i) # ConsoleWarn (NoSnapshot v)
             # trace (executeAndFinalize w v i up r),
           remoteAfter (executeAndFinalize w v i up r),
           ending (executeAndFinalize w v i up r))"
  by (simp add: applyVersion_def Let_def split: prod.splits)

lemma processVersion_pending:
  assumes "validIndexFile w v = Some f" and "jitiImport w f = Module (Some m)"
    and "checkedId (Some m) = Some i" and "i \<notin> set a"
  shows "processVersion w a v r =
           (Import f # trace (applyVersion w v i (migration_up m) r),
            remoteAfter (applyVersion w v i (migration_up m) r),
            ending (applyVersion w v i (migration_up m) r))"
  using assms by (simp add: processVersion_def split: prod.splits)

lemma applyVersion_finalizes:
  assumes "\<not> pushSnapshotThrows w (pathJoin v (snapshotFilename w))"
    and "up \<noteq> Some UpThrows" and "\<not> recordMigrationThrows w i"
  shows "ending (applyVersion w v i up r) = Next \<and>
         filter isUp (trace (applyVersion w v i up r)) = (if up = None then [] else [Up v]) \<and>
         filter isRecordMigration (trace (applyVersion w v i up r)) = [RecordMigration i v] \<and>
         applied (remoteAfter (applyVersion w v i up r)) = applied r @ [(i, v)]"
proof (cases "existsSync w (pathJoin v (snapshotFilename w))")
  case True
  let ?p = "pathJoin v (snapshotFilename w)"
  obtain es c where wa: "waitForAttributes w ?p (queries r) = (es, c)"
    by (meson surj_pair)
  note q = waitForAttributes_quiet [OF wa]
  note e = executeAndFinalize_recorded [OF assms(2,3),
      of v "r\<lparr>schema := schema r @ [?p], queries := c\<rparr>"]
  from wa q e show ?thesis
    by (simp add: applyVersion_pushed [OF True assms(1)])
next
  case False
  note e = executeAndFinalize_recorded [OF assms(2,3), of v r]
  from e show ?thesis
    by (simp add: applyVersion_no_snapshot [OF False])
qed

lemma statusAction_remote:
  "remoteAfter (statusAction loadApplied w r) =
     (if loadConfigThrows w then r else snd (loadApplied w r))"
  by (simp add: statusAction_def split: prod.splits option.splits)

lemma filter_map_ConsoleLog [simp]:
  "filter isPushSnapshot (map (\<lambda>x. ConsoleLog (g x)) xs) = []"
  "filter isRecordMigration (map (\<lambda>x. ConsoleLog (g x)) xs) = []"
  "filter isUp (map (\<lambda>x. ConsoleLog (g x)) xs) = []"
  "filter isImport (map (\<lambda>x. ConsoleLog (g x)) xs) = []"
  by (induction xs) simp_all

lemma statusAction_calls:
  "filter isPushSnapshot (trace (statusAction loadApplied w r)) = [] \<and>
   filter isRecordMigration (trace (statusAction loadApplied w r)) = [] \<and>
   filter isUp (trace (statusAction loadApplied w r)) = [] \<and>
   filter isImport (trace (statusAction loadApplied w r)) = []"
  by (simp add: statusAction_def split: prod.splits option.splits)



subsection \<open>Checks of the model\<close>

lemma length_insertSorted: "length (insertSorted f x ys) = Suc (length ys)"
  by (induction ys) auto

lemma length_arraySort: "length (arraySort f xs) = length xs"
  by (induction xs) (auto simp: length_insertSorted)

text \<open>The sorted list holds exactly the discovered directories.\<close>

theorem discovery_keeps_the_directories:
  "set (versionDirs w) =
     {dir. dir \<in> set (readdirSync w) \<and> startsWith dir ''v'' \<and> isDirectory w dir} \<and>
   length (versionDirs w) =
     length (filter (\<lambda>dir. startsWith dir ''v'' \<and> isDirectory w dir) (readdirSync w))"
  by (auto simp: versionDirs_def set_arraySort length_arraySort)

text \<open>
  The scenario of the spec, with a third version: on an empty remote \<^verbatim>\<open>v1\<close> is applied
  with no push and no wait, \<^verbatim>\<open>v2\<close> with a push, two waiting cycles and the execution, and
  \<^verbatim>\<open>v10\<close>, which has no \<^verbatim>\<open>up\<close>, is recorded too.
\<close>

theorem scenario_two_versions:
  "runMigrations project emptyRemote =
     ([ConsoleLog Starting, ConsoleLog Configuring, ConfigureClient,
       ConsoleLog (FoundVersions 3), GetAppliedMigrations,
       Enter ''v1'', Import ''v1/index.ts'', ConsoleLog (Applying ''v1'' ''A''),
       ConsoleWarn (NoSnapshot ''v1''), ConsoleLog Executing, Up ''v1'',
       ConsoleLog Finalizing, RecordMigration ''A'' ''v1'',
       ConsoleLog (AppliedSuccessfully ''v1''),
       Enter ''v2'', Import ''v2/index.ts'', ConsoleLog (Applying ''v2'' ''B''),
       ConsoleLog (PushingSnapshot ''v2''), PushSnapshot ''v2/appwrite.config.json'',
       ConsoleLog PollingStatus, ConsoleLog (CheckingAttributes ''T''),
       ListAttributes ''db'' ''T'', ConsoleLog (WaitingFor 1), Sleep,
       ListAttributes ''db'' ''T'', ConsoleLog (WaitingFor 1), Sleep,
       ListAttributes ''db'' ''T'',
       ConsoleLog Executing, Up ''v2'', ConsoleLog Finalizing,
       RecordMigration ''B'' ''v2'', ConsoleLog (AppliedSuccessfully ''v2''),
       Enter ''v10'', Import ''v10/index.js'', ConsoleLog (Applying ''v10'' ''C''),
       ConsoleWarn (NoSnapshot ''v10''), ConsoleLog Executing, ConsoleLog Finalizing,
       RecordMigration ''C'' ''v10'', ConsoleLog (AppliedSuccessfully ''v10''),
       ConsoleLog AllApplied],
      \<lparr>applied = [(''A'', ''v1''), (''B'', ''v2''), (''C'', ''v10'')],
       schema = [''v2/appwrite.config.json''], queries = 3\<rparr>,
      Resolved)"
  by code_simp

section \<open>The claims\<close>







text \<open>
  Claim C3, as amended. When a run completes (its promise resolves: no version made it
  stop), a second run on the same project, started on the remote that the first run left,
  pushes no snapshot, executes no \<^verbatim>\<open>up\<close>, polls no attribute and records nothing: every
  version is passed over, the remote stays as it is, and the second run completes too.
  The applied ids that the second run loads are those of the records that the first run
  left, as the spec says of the store.
\<close>

theorem second_run_applies_nothing:
  assumes "ending (runMigrations w r) = Resolved"
  shows "filter isPushSnapshot (trace (runMigrations w (remoteAfter (runMigrations w r)))) = [] \<and>
         filter isUp (trace (runMigrations w (remoteAfter (runMigrations w r)))) = [] \<and>
         filter isListAttributes (trace (runMigrations w (remoteAfter (runMigrations w r)))) = [] \<and>
         filter isRecordMigration (trace (runMigrations w (remoteAfter (runMigrations w r)))) = [] \<and>
         remoteAfter (runMigrations w (remoteAfter (runMigrations w r))) =
           remoteAfter (runMigrations w r) \<and>
         ending (runMigrations w (remoteAfter (runMigrations w r))) = Resolved"
proof -
  let ?a = "map fst (applied r)"
  obtain es r1 out where fv: "forVersions w ?a (versionDirs w) r = (es, r1, out)"
    by (metis prod_cases3)
  note cfg = runMigrations_Resolved_config [OF assms]
  note res = runMigrations_Resolved [OF assms]
  from res(2) fv have out: "out = None" by simp
  with fv have fv': "forVersions w ?a (versionDirs w) r = (es, r1, None)" by simp
  from res(4) fv have r1: "remoteAfter (runMigrations w r) = r1" by simp
  let ?a1 = "map fst (applied r1)"
  from forVersions_applied_grows [OF fv] have "set ?a \<subseteq> set ?a1"
    by (simp add: image_mono)
  moreover have "fst ` set (applied r1) \<subseteq> set ?a1"
    by simp
  ultimately have "list_all (passedOver w ?a1) (versionDirs w)"
    by (rule forVersions_completed_passedOver [OF fv'])
  from forVersions_passedOver [OF this, of r1]
  obtain es2 where fv2: "forVersions w ?a1 (versionDirs w) r1 = (es2, r1, None)"
    and q: "filter isPushSnapshot es2 = []" "filter isUp es2 = []"
      "filter isRecordMigration es2 = []" "filter isListAttributes es2 = []"
    by blast
  have run2: "runMigrations w r1 =
           ([ConsoleLog Starting, ConsoleLog Configuring, ConfigureClient,
             ConsoleLog (FoundVersions (length (versionDirs w))), GetAppliedMigrations]
              @ es2 @ [ConsoleLog AllApplied], r1, Resolved)"
    by (rule runMigrations_completed [OF cfg res(1) fv2])
  show ?thesis
    unfolding r1 run2 using q by simp
qed

theorem second_run_applies_nothing_witness:
  "ending (runMigrations project emptyRemote) = Resolved \<and>
   filter isPushSnapshot (trace (runMigrations project emptyRemote)) =
     [PushSnapshot ''v2/appwrite.config.json''] \<and>
   filter isPushSnapshot
     (trace (runMigrations project (remoteAfter (runMigrations project emptyRemote)))) = [] \<and>
   filter isUp
     (trace (runMigrations project (remoteAfter (runMigrations project emptyRemote)))) = []"
proof -
  have h: "ending (runMigrations project emptyRemote) = Resolved"
    by code_simp
  have p: "filter isPushSnapshot (trace (runMigrations project emptyRemote)) =
     [PushSnapshot ''v2/appwrite.config.json'']"
    by code_simp
  from second_run_applies_nothing [OF h] h p show ?thesis
    by simp
qed

text \<open>
  Claim C3 as stated fails when the first run does not complete: in the project whose
  \<^verbatim>\<open>v2\<close> throws during \<^verbatim>\<open>up\<close> the first run ends with exit code 1 after the push of
  \<^verbatim>\<open>v2\<close>, and the second run pushes the snapshot of \<^verbatim>\<open>v2\<close> and executes its \<^verbatim>\<open>up\<close> again.
\<close>

theorem second_run_counterexample:
  "ending (runMigrations failingProject emptyRemote) = Exit1 \<and>
   filter isPushSnapshot
     (trace (runMigrations failingProject (remoteAfter (runMigrations failingProject emptyRemote))))
     = [PushSnapshot ''v2/appwrite.config.json''] \<and>
   filter isUp
     (trace (runMigrations failingProject (remoteAfter (runMigrations failingProject emptyRemote))))
     = [Up ''v2'']"
  by code_simp








text \<open>
  Claim C7. A version that is not applied yet and has no snapshot file does not make the
  run fail: after the import the run prints that it applies the version, warns that the
  schema sync is skipped, and goes straight to the execution step. It pushes nothing and
  makes no attribute query, so the schema and the query count of the remote stay as they
  are; and when \<^verbatim>\<open>up\<close> does not throw and the record can be written the version is applied
  and the loop goes on.
\<close>

theorem no_snapshot_goes_to_execution:
  assumes "validIndexFile w version = Some indexFile"
    and "jitiImport w indexFile = Module (Some m)"
    and "checkedId (Some m) = Some migrationId"
    and "migrationId \<notin> set appliedIds"
    and "\<not> existsSync w (pathJoin version (snapshotFilename w))"
  shows "processVersion w appliedIds version r =
       (Import indexFile # ConsoleLog (Applying version migrationId) # ConsoleWarn (NoSnapshot version)
          # trace (executeAndFinalize w version migrationId (migration_up m) r),
        remoteAfter (executeAndFinalize w version migrationId (migration_up m) r),
        ending (executeAndFinalize w version migrationId (migration_up m) r)) \<and>
     take 4 (trace (processVersion w appliedIds version r)) =
       [Import indexFile, ConsoleLog (Applying version migrationId), ConsoleWarn (NoSnapshot version),
        ConsoleLog Executing] \<and>
     filter isPushSnapshot (trace (processVersion w appliedIds version r)) = [] \<and>
     filter isListAttributes (trace (processVersion w appliedIds version r)) = [] \<and>
     schema (remoteAfter (processVersion w appliedIds version r)) = schema r \<and>
     queries (remoteAfter (processVersion w appliedIds version r)) = queries r \<and>
     (migration_up m \<noteq> Some UpThrows \<and> \<not> recordMigrationThrows w migrationId \<longrightarrow>
        ending (processVersion w appliedIds version r) = Next \<and>
        filter isUp (trace (processVersion w appliedIds version r)) =
          (if migration_up m = None then [] else [Up version]) \<and>
        applied (remoteAfter (processVersion w appliedIds version r)) =
          applied r @ [(migrationId, version)])"
proof -
  let ?e = "executeAndFinalize w version migrationId (migration_up m) r"
  have pv: "processVersion w appliedIds version r =
       (Import indexFile # ConsoleLog (Applying version migrationId) # ConsoleWarn (NoSnapshot version)
          # trace ?e, remoteAfter ?e, ending ?e)"
    by (simp add: processVersion_pending [OF assms(1-4)] applyVersion_no_snapshot [OF assms(5)])
  note q = executeAndFinalize_quiet [of w version migrationId "migration_up m" r]
  have t: "take 4 (Import indexFile # ConsoleLog (Applying version migrationId)
          # ConsoleWarn (NoSnapshot version) # trace ?e) =
       [Import indexFile, ConsoleLog (Applying version migrationId), ConsoleWarn (NoSnapshot version),
        ConsoleLog Executing]"
    using q by (simp add: take_Cons')
  have r: "migration_up m \<noteq> Some UpThrows \<and> \<not> recordMigrationThrows w migrationId \<longrightarrow>
        ending ?e = Next \<and>
        filter isUp (trace ?e) = (if migration_up m = None then [] else [Up version]) \<and>
        applied (remoteAfter ?e) = applied r @ [(migrationId, version)]"
    using executeAndFinalize_recorded [of "migration_up m" w migrationId version r] by blast
  show ?thesis
    unfolding pv using t q r by simp
qed

theorem no_snapshot_goes_to_execution_witness:
  "\<not> existsSync project (pathJoin ''v1'' (snapshotFilename project)) \<and>
   take 4 (trace (processVersion project [] ''v1'' emptyRemote)) =
     [Import ''v1/index.ts'', ConsoleLog (Applying ''v1'' ''A''), ConsoleWarn (NoSnapshot ''v1''),
      ConsoleLog Executing] \<and>
   filter isUp (trace (processVersion project [] ''v1'' emptyRemote)) = [Up ''v1''] \<and>
   ending (processVersion project [] ''v1'' emptyRemote) = Next"
proof -
  let ?m = "\<lparr>migration_id = Some ''A'', migration_up = Some UpReturns\<rparr>"
  have h: "validIndexFile project ''v1'' = Some ''v1/index.ts''"
    "jitiImport project ''v1/index.ts'' = Module (Some ?m)"
    "checkedId (Some ?m) = Some ''A''"
    "''A'' \<notin> set []"
    "\<not> existsSync project (pathJoin ''v1'' (snapshotFilename project))"
    by code_simp+
  have h2: "migration_up ?m \<noteq> Some UpThrows \<and> \<not> recordMigrationThrows project ''A''"
    by code_simp
  note t = no_snapshot_goes_to_execution [OF h, of emptyRemote]
  from t have a: "take 4 (trace (processVersion project [] ''v1'' emptyRemote)) =
     [Import ''v1/index.ts'', ConsoleLog (Applying ''v1'' ''A''), ConsoleWarn (NoSnapshot ''v1''),
      ConsoleLog Executing]"
    by blast
  from t h2 have "filter isUp (trace (processVersion project [] ''v1'' emptyRemote)) =
      (if migration_up ?m = None then [] else [Up ''v1''])"
    by blast
  then have b: "filter isUp (trace (processVersion project [] ''v1'' emptyRemote)) = [Up ''v1'']"
    by simp
  from t h2 have c: "ending (processVersion project [] ''v1'' emptyRemote) = Next"
    by blast
  from h(5) a b c show ?thesis
    by blast
qed

text \<open>
  Claim C9. The check on the loaded module rejects a missing default export and a missing
  or empty id, and nothing else: it does not look at \<^verbatim>\<open>up\<close>. A migration without \<^verbatim>\<open>up\<close>
  that is not applied yet passes the check, no \<^verbatim>\<open>up\<close> is executed, and (when the push, if
  there is one, and the write of the record do not fail) it is recorded as applied and the
  loop goes on.
\<close>

theorem up_is_optional:
  "(checkedId migration = None \<longleftrightarrow>
      migration = None \<or>
      (\<exists>m. migration = Some m \<and> (migration_id m = None \<or> migration_id m = Some []))) \<and>
   checkedId (Some (m\<lparr>migration_up := up\<rparr>)) = checkedId (Some m) \<and>
   (validIndexFile w version = Some indexFile \<and> jitiImport w indexFile = Module (Some m) \<and>
    checkedId (Some m) = Some migrationId \<and> migrationId \<notin> set appliedIds \<and>
    migration_up m = None \<and>
    \<not> pushSnapshotThrows w (pathJoin version (snapshotFilename w)) \<and>
    \<not> recordMigrationThrows w migrationId \<longrightarrow>
      ending (processVersion w appliedIds version r) = Next \<and>
      filter isUp (trace (processVersion w appliedIds version r)) = [] \<and>
      filter isRecordMigration (trace (processVersion w appliedIds version r)) =
        [RecordMigration migrationId version] \<and>
      applied (remoteAfter (processVersion w appliedIds version r)) =
        applied r @ [(migrationId, version)])"
proof (intro conjI impI)
  show "checkedId migration = None \<longleftrightarrow>
      migration = None \<or>
      (\<exists>m. migration = Some m \<and> (migration_id m = None \<or> migration_id m = Some []))"
    by (auto simp: checkedId_def split: option.splits)
  show "checkedId (Some (m\<lparr>migration_up := up\<rparr>)) = checkedId (Some m)"
    by (simp add: checkedId_def)
next
  assume a: "validIndexFile w version = Some indexFile \<and> jitiImport w indexFile = Module (Some m) \<and>
    checkedId (Some m) = Some migrationId \<and> migrationId \<notin> set appliedIds \<and>
    migration_up m = None \<and>
    \<not> pushSnapshotThrows w (pathJoin version (snapshotFilename w)) \<and>
    \<not> recordMigrationThrows w migrationId"
  then have pv: "processVersion w appliedIds version r =
           (Import indexFile # trace (applyVersion w version migrationId None r),
            remoteAfter (applyVersion w version migrationId None r),
            ending (applyVersion w version migrationId None r))"
    using processVersion_pending [of w version indexFile m migrationId appliedIds r] by simp
  from a have f: "ending (applyVersion w version migrationId None r) = Next \<and>
         filter isUp (trace (applyVersion w version migrationId None r)) = [] \<and>
         filter isRecordMigration (trace (applyVersion w version migrationId None r)) =
           [RecordMigration migrationId version] \<and>
         applied (remoteAfter (applyVersion w version migrationId None r)) =
           applied r @ [(migrationId, version)]"
    using applyVersion_finalizes [of w version None migrationId r] by simp
  from pv f show "ending (processVersion w appliedIds version r) = Next"
    and "filter isUp (trace (processVersion w appliedIds version r)) = []"
    and "filter isRecordMigration (trace (processVersion w appliedIds version r)) =
        [RecordMigration migrationId version]"
    and "applied (remoteAfter (processVersion w appliedIds version r)) =
        applied r @ [(migrationId, version)]"
    by simp_all
qed

theorem up_is_optional_witness:
  "validIndexFile project ''v10'' = Some ''v10/index.js'' \<and>
   jitiImport project ''v10/index.js'' =
     Module (Some \<lparr>migration_id = Some ''C'', migration_up = None\<rparr>) \<and>
   ending (processVersion project [] ''v10'' emptyRemote) = Next \<and>
   filter isUp (trace (processVersion project [] ''v10'' emptyRemote)) = [] \<and>
   applied (remoteAfter (processVersion project [] ''v10'' emptyRemote)) = [(''C'', ''v10'')]"
proof -
  let ?m = "\<lparr>migration_id = Some ''C'', migration_up = None\<rparr>"
  have h: "validIndexFile project ''v10'' = Some ''v10/index.js'' \<and>
    jitiImport project ''v10/index.js'' = Module (Some ?m) \<and>
    checkedId (Some ?m) = Some ''C'' \<and> ''C'' \<notin> set [] \<and> migration_up ?m = None \<and>
    \<not> pushSnapshotThrows project (pathJoin ''v10'' (snapshotFilename project)) \<and>
    \<not> recordMigrationThrows project ''C''"
    by code_simp
  have e: "applied emptyRemote @ [(''C'', ''v10'')] = [(''C'', ''v10'')]"
    by code_simp
  note t = up_is_optional [where m = ?m and w = project and version = "''v10''"
      and indexFile = "''v10/index.js''" and migrationId = "''C''" and appliedIds = "[]"
      and r = emptyRemote]
  from t h have a: "ending (processVersion project [] ''v10'' emptyRemote) = Next"
    by blast
  from t h have b: "filter isUp (trace (processVersion project [] ''v10'' emptyRemote)) = []"
    by blast
  from t h have "applied (remoteAfter (processVersion project [] ''v10'' emptyRemote)) =
      applied emptyRemote @ [(''C'', ''v10'')]"
    by blast
  with e have c: "applied (remoteAfter (processVersion project [] ''v10'' emptyRemote)) =
      [(''C'', ''v10'')]"
    by simp
  from h a b c show ?thesis
    by blast
qed

text \<open>
  Claim C8. The status command leaves the remote as it is. The command itself makes one
  call to the remote, the one that loads the applied ids: for every such helper the remote
  after the command is the remote after that call, and the command pushes no snapshot,
  records no migration and executes no \<^verbatim>\<open>up\<close>. With the helper as the spec describes it
  (a query), the applied records and the schema after the command are those before it, on
  every path: configuration error, failed query, missing directory, and the listing.
\<close>

theorem status_is_read_only:
  "(\<forall>loadApplied.
      remoteAfter (statusAction loadApplied w r) =
        (if loadConfigThrows w then r else snd (loadApplied w r)) \<and>
      filter isPushSnapshot (trace (statusAction loadApplied w r)) = [] \<and>
      filter isRecordMigration (trace (statusAction loadApplied w r)) = [] \<and>
      filter isUp (trace (statusAction loadApplied w r)) = []) \<and>
   remoteAfter (migrationsStatus w r) = r \<and>
   applied (remoteAfter (migrationsStatus w r)) = applied r \<and>
   schema (remoteAfter (migrationsStatus w r)) = schema r"
proof -
  have "remoteAfter (migrationsStatus w r) = r"
    by (simp add: migrationsStatus_def statusAction_remote getAppliedMigrations_def)
  then show ?thesis
    using statusAction_remote statusAction_calls by simp
qed

theorem status_is_read_only_witness:
  "remoteAfter (migrationsStatus project \<lparr>applied = [(''A'', ''v1'')], schema = [], queries = 0\<rparr>) =
     \<lparr>applied = [(''A'', ''v1'')], schema = [], queries = 0\<rparr> \<and>
   trace (migrationsStatus project \<lparr>applied = [(''A'', ''v1'')], schema = [], queries = 0\<rparr>) =
     [GetAppliedMigrations, ConsoleLog StatusHeader,
      ConsoleLog (StatusLine ''v1'' ''A'' APPLIED), ConsoleLog (StatusLine ''v2'' ''B'' PENDING),
      ConsoleLog (StatusLine ''v10'' ''unknown'' PENDING), ConsoleLog BlankLine]"
proof -
  have t: "trace (migrationsStatus project \<lparr>applied = [(''A'', ''v1'')], schema = [], queries = 0\<rparr>) =
     [GetAppliedMigrations, ConsoleLog StatusHeader,
      ConsoleLog (StatusLine ''v1'' ''A'' APPLIED), ConsoleLog (StatusLine ''v2'' ''B'' PENDING),
      ConsoleLog (StatusLine ''v10'' ''unknown'' PENDING), ConsoleLog BlankLine]"
    by code_simp
  from status_is_read_only [of project "\<lparr>applied = [(''A'', ''v1'')], schema = [], queries = 0\<rparr>"] t
  show ?thesis by blast
qed




end
